theory Spec2Isabelle
  imports Complex_Main "HOL-Library.AList"
begin

section \<open>Python values\<close>

text \<open>
  The sources are dynamically typed: a setter receives any Python value and inspects it with
  truthiness tests, \<^verbatim>\<open>isinstance\<close> and the \<^verbatim>\<open>in\<close> operator. The values the
  sources distinguish are modelled by one datatype. A dictionary is an association list in
  insertion order (its keys are strings throughout the sources); an instance of one of the
  library's classes is its class name together with its attribute dictionary. A float is
  represented by the rational it denotes; the non-finite floats are outside the model.
\<close>

datatype pyval =
    PNone
  | PBool bool
  | PInt int
  | PFloat rat
  | PStr string
  | PList "pyval list"
  | PDict "(string \<times> pyval) list"
  | PEnforcedNull
  | PObj string "(string \<times> pyval) list"

type_synonym pdict = "(string \<times> pyval) list"

text \<open>The exceptions the sources raise, catch or let through.\<close>

datatype error =
    EmptyValueError
  | CannotCoerceError
  | NotAnIntegerError
  | MinimumValueError
  | HighchartsValueError
  | JSONDecodeError
  | AttributeError
  | TypeError

text \<open>
  Everything the five source files import but do not define is a field of one environment
  record, so that each statement below holds for every implementation of the missing parts:
  \<^item> \<open>py_float\<close> is Python's parsing of a string as a float (\<open>None\<close> when it raises);
  \<^item> \<open>json_is_dict\<close> tells whether a string is a JSON document denoting an object;
  \<^item> \<open>int_has_is_integer\<close> tells whether integers have the method \<^verbatim>\<open>is_integer\<close>;
  \<^item> \<open>coerce_error_is_ValueError\<close> tells whether the validators' coercion error is caught by
    \<^verbatim>\<open>except ValueError\<close>;
  \<^item> the constants of the module \<^verbatim>\<open>constants\<close>;
  \<^item> the decoders of the classes \<^verbatim>\<open>Gradient\<close> and \<^verbatim>\<open>Pattern\<close>;
  \<^item> the constructor and the export of the parent class \<^verbatim>\<open>CartesianData\<close>, working on
    the parent's attribute dictionary;
  \<^item> \<^verbatim>\<open>XRangeData.from_dict\<close>, whose constructor depends on decorators and date
    validators that are not among the sources.
\<close>

record env =
  py_float :: "string \<Rightarrow> rat option"
  json_is_dict :: "string \<Rightarrow> bool"
  int_has_is_integer :: bool
  coerce_error_is_ValueError :: bool
  DEFAULT_AFTER_CHART_FORMAT :: string
  DEFAULT_AXIS_RANGE_DATE_FORMAT :: string
  DEFAULT_BEFORE_CHART_FORMAT :: string
  SUPPORTED_DASH_STYLE_VALUES :: "string list"
  Gradient_from_json :: "pyval \<Rightarrow> error + pyval"
  Gradient_from_dict :: "pyval \<Rightarrow> error + pyval"
  Gradient_init :: "pdict \<Rightarrow> error + pyval"
  Pattern_from_json :: "pyval \<Rightarrow> error + pyval"
  Pattern_from_dict :: "pyval \<Rightarrow> error + pyval"
  Pattern_init :: "pdict \<Rightarrow> error + pyval"
  CartesianData_init :: "pdict \<Rightarrow> error + pdict"
  CartesianData_to_dict :: "pdict \<Rightarrow> pdict option"
  XRangeData_from_dict :: "pyval \<Rightarrow> error + pyval"

text \<open>\<^verbatim>\<open>except ValueError\<close>: which exceptions the clause catches.\<close>

fun is_ValueError :: "env \<Rightarrow> error \<Rightarrow> bool" where
  "is_ValueError E EmptyValueError = True"
| "is_ValueError E CannotCoerceError = coerce_error_is_ValueError E"
| "is_ValueError E NotAnIntegerError = True"
| "is_ValueError E MinimumValueError = True"
| "is_ValueError E HighchartsValueError = True"
| "is_ValueError E JSONDecodeError = True"
| "is_ValueError E AttributeError = False"
| "is_ValueError E TypeError = False"

text \<open>Sequencing of statements that may raise: the first exception ends the computation.\<close>

definition and_then :: "error + 'a \<Rightarrow> ('a \<Rightarrow> error + 'b) \<Rightarrow> error + 'b" where
  "and_then r f = (case r of Inl e \<Rightarrow> Inl e | Inr v \<Rightarrow> f v)"

text \<open>Python's truth value of an object (\<^verbatim>\<open>not value\<close> is its negation).\<close>

fun truthy :: "pyval \<Rightarrow> bool" where
  "truthy PNone = False"
| "truthy (PBool b) = b"
| "truthy (PInt n) = (n \<noteq> 0)"
| "truthy (PFloat r) = (r \<noteq> 0)"
| "truthy (PStr s) = (s \<noteq> [])"
| "truthy (PList xs) = (xs \<noteq> [])"
| "truthy (PDict d) = (d \<noteq> [])"
| "truthy PEnforcedNull = True"
| "truthy (PObj c a) = True"

subsection \<open>Dictionaries\<close>

text \<open>
  \<^verbatim>\<open>d.pop(key, default)\<close> returns the value stored under the key, or the default, and
  removes the key from the dictionary; the model returns the value and the remaining
  dictionary. \<^verbatim>\<open>d[key] = v\<close> is \<^const>\<open>AList.update\<close>: an existing key keeps its place,
  a new key is appended.
\<close>

definition dict_pop :: "pdict \<Rightarrow> string \<Rightarrow> pyval \<Rightarrow> pyval \<times> pdict" where
  "dict_pop d k dflt =
     (case map_of d k of None \<Rightarrow> (dflt, d) | Some v \<Rightarrow> (v, AList.delete k d))"

text \<open>
  Where the remaining dictionary is not used again (the keyword arguments of a constructor
  that hands nothing on), only the popped value is kept.
\<close>

definition kwargs_pop :: "pdict \<Rightarrow> string \<Rightarrow> pyval \<Rightarrow> pyval" where
  "kwargs_pop kwargs k dflt = fst (dict_pop kwargs k dflt)"

text \<open>\<^verbatim>\<open>d.get(key, default)\<close>, used to state what a \<^verbatim>\<open>pop\<close> returned.\<close>

definition dict_get :: "pdict \<Rightarrow> string \<Rightarrow> pyval \<Rightarrow> pyval" where
  "dict_get d k dflt = (case map_of d k of None \<Rightarrow> dflt | Some v \<Rightarrow> v)"

definition has_key :: "pdict \<Rightarrow> string \<Rightarrow> bool" where
  "has_key d k = (map_of d k \<noteq> None)"

text \<open>
  A \<^verbatim>\<open>_get_kwargs_from_dict\<close> is a dictionary display whose entries are
  \<^verbatim>\<open>'internal_name': as_dict.pop('externalName', default)\<close>, evaluated in order. It is
  modelled by the table of its entries and one loop that pops them in order.
\<close>

type_synonym field_table = "(string \<times> string \<times> pyval) list"

fun pop_fields :: "field_table \<Rightarrow> pdict \<Rightarrow> pdict \<Rightarrow> pdict \<times> pdict" where
  "pop_fields [] as_dict kwargs = (kwargs, as_dict)"
| "pop_fields ((internal, external, dflt) # rest) as_dict kwargs =
     (case dict_pop as_dict external dflt of
        (v, as_dict') \<Rightarrow> pop_fields rest as_dict' (AList.update internal v kwargs))"

subsection \<open>The validators\<close>

text \<open>
  The validators belong to the library \<^verbatim>\<open>validator_collection\<close>, outside the sources.
  They are modelled on the values above, with the keyword arguments the sources pass.
  \<^verbatim>\<open>validators.string(value, allow_empty)\<close> rejects a falsy value unless
  \<^verbatim>\<open>allow_empty\<close> holds, in which case it returns \<^verbatim>\<open>None\<close>; it rejects a value that is
  not a string and returns a string unchanged.
\<close>

definition validators_string :: "pyval \<Rightarrow> bool \<Rightarrow> error + pyval" where
  "validators_string value allow_empty =
     (if \<not> truthy value \<and> \<not> allow_empty then Inl EmptyValueError
      else if \<not> truthy value then Inr PNone
      else (case value of PStr s \<Rightarrow> Inr (PStr s) | _ \<Rightarrow> Inl CannotCoerceError))"

text \<open>
  \<^verbatim>\<open>validators.numeric(value, allow_empty, minimum)\<close> treats only \<^verbatim>\<open>None\<close> as empty,
  parses a string as a float, accepts the numeric types unchanged and rejects everything
  else; a value below the minimum is rejected.
\<close>

fun numeric_value :: "pyval \<Rightarrow> rat option" where
  "numeric_value (PBool b) = Some (if b then 1 else 0)"
| "numeric_value (PInt n) = Some (of_int n)"
| "numeric_value (PFloat r) = Some r"
| "numeric_value _ = None"

definition check_minimum :: "rat option \<Rightarrow> pyval \<Rightarrow> error + pyval" where
  "check_minimum minimum v =
     (case (minimum, numeric_value v) of
        (Some m, Some r) \<Rightarrow> if r < m then Inl MinimumValueError else Inr v
      | _ \<Rightarrow> Inr v)"

definition validators_numeric :: "env \<Rightarrow> pyval \<Rightarrow> bool \<Rightarrow> rat option \<Rightarrow> error + pyval" where
  "validators_numeric E value allow_empty minimum =
     (if value = PNone \<and> \<not> allow_empty then Inl EmptyValueError
      else if value = PNone then Inr PNone
      else (case value of
              PStr s \<Rightarrow> (case py_float E s of
                           None \<Rightarrow> Inl CannotCoerceError
                         | Some r \<Rightarrow> check_minimum minimum (PFloat r))
            | PBool b \<Rightarrow> check_minimum minimum value
            | PInt n \<Rightarrow> check_minimum minimum value
            | PFloat r \<Rightarrow> check_minimum minimum value
            | _ \<Rightarrow> Inl CannotCoerceError))"

text \<open>
  \<^verbatim>\<open>validators.integer(value)\<close> validates the value as a number, turns a number that
  has the method \<^verbatim>\<open>is_integer\<close> and is integral into an \<^verbatim>\<open>int\<close>, and rejects any other
  value that is not of an integer type.
\<close>

definition validators_integer :: "env \<Rightarrow> pyval \<Rightarrow> error + pyval" where
  "validators_integer E value =
     and_then (validators_numeric E value False None) (\<lambda>v.
       case v of
         PFloat r \<Rightarrow> if of_int \<lfloor>r\<rfloor> = r then Inr (PInt \<lfloor>r\<rfloor>) else Inl NotAnIntegerError
       | PInt n \<Rightarrow> Inr (PInt n)
       | PBool b \<Rightarrow> if int_has_is_integer E then Inr (PInt (if b then 1 else 0))
                     else Inr (PBool b)
       | _ \<Rightarrow> Inr v)"

subsection \<open>Trimming\<close>

text \<open>
  Modelled from the spec: \<^verbatim>\<open>HighchartsMeta.trim_dict\<close> (the module \<^verbatim>\<open>metaclasses\<close> is not
  among the sources). A field is omitted from the result iff its value is unset, which the
  sources store as \<^verbatim>\<open>None\<close>; every other value, the forced default
  \<^verbatim>\<open>EnforcedNull\<close> included, is emitted.
\<close>

definition trim_dict :: "pdict \<Rightarrow> pdict" where
  "trim_dict untrimmed = filter (\<lambda>kv. snd kv \<noteq> PNone) untrimmed"

section \<open>ScreenReaderSection\<close>

record ScreenReaderSection =
  after_chart_format :: pyval
  after_chart_formatter :: pyval
  axis_range_date_format :: pyval
  before_chart_format :: pyval
  before_chart_formatter :: pyval
  on_play_as_sound_click :: pyval
  on_view_data_table_click :: pyval

definition after_chart_format_setter :: "pyval \<Rightarrow> error + pyval" where
  "after_chart_format_setter value =
     (if value = PNone then Inr PNone
      else if \<not> truthy value then Inr (PStr [])
      else validators_string value False)"

definition before_chart_format_setter :: "pyval \<Rightarrow> error + pyval" where
  "before_chart_format_setter value =
     (if value = PNone then Inr PNone
      else if \<not> truthy value then Inr (PStr [])
      else validators_string value False)"

text \<open>
  The constructor pops each keyword argument with its default and assigns it through the
  setter, in the order of the source; the other five setters are
  \<^verbatim>\<open>validators.string(value, allow_empty = True)\<close>. Keyword arguments left over are
  dropped.
\<close>

definition ScreenReaderSection_init :: "env \<Rightarrow> pdict \<Rightarrow> error + ScreenReaderSection" where
  "ScreenReaderSection_init E kwargs =
     and_then (after_chart_format_setter
        (kwargs_pop kwargs ''after_chart_format'' (PStr (DEFAULT_AFTER_CHART_FORMAT E)))) (\<lambda>v1.
     and_then (validators_string (kwargs_pop kwargs ''after_chart_formatter'' PNone) True) (\<lambda>v2.
     and_then (validators_string
        (kwargs_pop kwargs ''axis_range_date_format'' (PStr (DEFAULT_AXIS_RANGE_DATE_FORMAT E)))
        True) (\<lambda>v3.
     and_then (before_chart_format_setter
        (kwargs_pop kwargs ''before_chart_format'' (PStr (DEFAULT_BEFORE_CHART_FORMAT E)))) (\<lambda>v4.
     and_then (validators_string (kwargs_pop kwargs ''before_chart_formatter'' PNone) True) (\<lambda>v5.
     and_then (validators_string (kwargs_pop kwargs ''on_play_as_sound_click'' PNone) True) (\<lambda>v6.
     and_then (validators_string (kwargs_pop kwargs ''on_view_data_table_click'' PNone) True) (\<lambda>v7.
     Inr \<lparr> after_chart_format = v1, after_chart_formatter = v2,
           axis_range_date_format = v3, before_chart_format = v4,
           before_chart_formatter = v5, on_play_as_sound_click = v6,
           on_view_data_table_click = v7 \<rparr>)))))))"

definition ScreenReaderSection_table :: "env \<Rightarrow> field_table" where
  "ScreenReaderSection_table E =
     [(''after_chart_format'', ''afterChartFormat'', PStr (DEFAULT_AFTER_CHART_FORMAT E)),
      (''after_chart_formatter'', ''afterChartFormatter'', PNone),
      (''axis_range_date_format'', ''axisRangeDateFormat'',
         PStr (DEFAULT_AXIS_RANGE_DATE_FORMAT E)),
      (''before_chart_format'', ''beforeChartFormat'', PStr (DEFAULT_BEFORE_CHART_FORMAT E)),
      (''before_chart_formatter'', ''beforeChartFormatter'', PNone),
      (''on_play_as_sound_click'', ''onPlayAsSoundClick'', PNone),
      (''on_view_data_table_click'', ''onViewDataTableClick'', PNone)]"

definition ScreenReaderSection_from_dict :: "env \<Rightarrow> pdict \<Rightarrow> error + ScreenReaderSection" where
  "ScreenReaderSection_from_dict E as_dict =
     ScreenReaderSection_init E (fst (pop_fields (ScreenReaderSection_table E) as_dict []))"

definition ScreenReaderSection_to_json :: "ScreenReaderSection \<Rightarrow> pdict" where
  "ScreenReaderSection_to_json self =
     trim_dict
       [(''afterChartFormat'', after_chart_format self),
        (''afterChartFormatter'', after_chart_formatter self),
        (''axisRangeDateFormat'', axis_range_date_format self),
        (''beforeChartFormat'', before_chart_format self),
        (''beforeChartFormatter'', before_chart_formatter self),
        (''onPlayAsSoundClick'', on_play_as_sound_click self),
        (''onViewDataTableClick'', on_view_data_table_click self)]"

text \<open>
  What a round trip through \<^verbatim>\<open>to_json\<close> and \<^verbatim>\<open>from_dict\<close> gives back: a field
  stored as \<^verbatim>\<open>None\<close> is trimmed from the export, and \<^verbatim>\<open>from_dict\<close> puts the schema
  default in its place, as the setter stores it.
\<close>

definition with_schema_defaults :: "env \<Rightarrow> ScreenReaderSection \<Rightarrow> ScreenReaderSection" where
  "with_schema_defaults E s =
     s \<lparr> after_chart_format :=
           (if after_chart_format s = PNone then PStr (DEFAULT_AFTER_CHART_FORMAT E)
            else after_chart_format s),
         axis_range_date_format :=
           (if axis_range_date_format s = PNone then
              (if DEFAULT_AXIS_RANGE_DATE_FORMAT E = [] then PNone
               else PStr (DEFAULT_AXIS_RANGE_DATE_FORMAT E))
            else axis_range_date_format s),
         before_chart_format :=
           (if before_chart_format s = PNone then PStr (DEFAULT_BEFORE_CHART_FORMAT E)
            else before_chart_format s) \<rparr>"

section \<open>AnnotationPoint\<close>

record AnnotationPoint =
  pt_x :: pyval
  pt_x_axis :: pyval
  pt_y :: pyval
  pt_y_axis :: pyval

text \<open>
  The axis setters store \<^verbatim>\<open>None\<close> for \<^verbatim>\<open>None\<close> and for the empty string; otherwise
  they try the integer validator, on a \<^verbatim>\<open>ValueError\<close> the string validator, and turn a
  \<^verbatim>\<open>ValueError\<close> of the latter into \<^verbatim>\<open>HighchartsValueError\<close>. Any other exception
  passes through.
\<close>

definition x_axis_setter :: "env \<Rightarrow> pyval \<Rightarrow> error + pyval" where
  "x_axis_setter E value =
     (if value = PNone \<or> value = PStr [] then Inr PNone
      else (case validators_integer E value of
              Inr v \<Rightarrow> Inr v
            | Inl e \<Rightarrow>
                if is_ValueError E e then
                  (case validators_string value False of
                     Inr v \<Rightarrow> Inr v
                   | Inl e' \<Rightarrow> if is_ValueError E e' then Inl HighchartsValueError else Inl e')
                else Inl e))"

definition y_axis_setter :: "env \<Rightarrow> pyval \<Rightarrow> error + pyval" where
  "y_axis_setter E value =
     (if value = PNone \<or> value = PStr [] then Inr PNone
      else (case validators_integer E value of
              Inr v \<Rightarrow> Inr v
            | Inl e \<Rightarrow>
                if is_ValueError E e then
                  (case validators_string value False of
                     Inr v \<Rightarrow> Inr v
                   | Inl e' \<Rightarrow> if is_ValueError E e' then Inl HighchartsValueError else Inl e')
                else Inl e))"

definition AnnotationPoint_init :: "env \<Rightarrow> pdict \<Rightarrow> error + AnnotationPoint" where
  "AnnotationPoint_init E kwargs =
     and_then (validators_numeric E (kwargs_pop kwargs ''x'' PNone) True None) (\<lambda>v1.
     and_then (x_axis_setter E (kwargs_pop kwargs ''x_axis'' PNone)) (\<lambda>v2.
     and_then (validators_numeric E (kwargs_pop kwargs ''y'' PNone) True None) (\<lambda>v3.
     and_then (y_axis_setter E (kwargs_pop kwargs ''y_axis'' PNone)) (\<lambda>v4.
     Inr \<lparr> pt_x = v1, pt_x_axis = v2, pt_y = v3, pt_y_axis = v4 \<rparr>))))"

definition AnnotationPoint_table :: field_table where
  "AnnotationPoint_table =
     [(''x'', ''x'', PNone),
      (''x_axis'', ''xAxis'', PNone),
      (''y'', ''y'', PNone),
      (''y_axis'', ''yAxis'', PNone)]"

definition AnnotationPoint_from_dict :: "env \<Rightarrow> pdict \<Rightarrow> error + AnnotationPoint" where
  "AnnotationPoint_from_dict E as_dict =
     AnnotationPoint_init E (fst (pop_fields AnnotationPoint_table as_dict []))"

definition AnnotationPoint_to_dict :: "AnnotationPoint \<Rightarrow> pdict" where
  "AnnotationPoint_to_dict self =
     [(''x'', pt_x self),
      (''xAxis'', pt_x_axis self),
      (''y'', pt_y self),
      (''yAxis'', pt_y_axis self)]"

section \<open>Class and shape tests\<close>

text \<open>
  \<^verbatim>\<open>isinstance(value, (A, B))\<close> and \<^verbatim>\<open>checkers.is_type(value, 'A')\<close> look at the class
  of an instance; subclasses of the point classes do not occur in the sources.
  \<^verbatim>\<open>'key' in value\<close> is key membership for a dictionary and the substring test for a
  string. \<^verbatim>\<open>checkers.is_dict\<close> accepts a dictionary and a string holding a JSON object;
  \<^verbatim>\<open>checkers.is_iterable\<close> accepts lists and dictionaries and refuses strings; iterating
  a dictionary yields its keys.
\<close>

definition isinstance :: "pyval \<Rightarrow> string list \<Rightarrow> bool" where
  "isinstance value classes = (case value of PObj c a \<Rightarrow> c \<in> set classes | _ \<Rightarrow> False)"

definition is_dict_instance :: "pyval \<Rightarrow> bool" where
  "is_dict_instance value = (case value of PDict d \<Rightarrow> True | _ \<Rightarrow> False)"

definition is_dict_or_str :: "pyval \<Rightarrow> bool" where
  "is_dict_or_str value = (case value of PDict d \<Rightarrow> True | PStr s \<Rightarrow> True | _ \<Rightarrow> False)"

fun str_contains :: "string \<Rightarrow> string \<Rightarrow> bool" where
  "str_contains needle [] = (needle = [])"
| "str_contains needle (c # cs) =
     (take (length needle) (c # cs) = needle \<or> str_contains needle cs)"

definition py_in :: "string \<Rightarrow> pyval \<Rightarrow> bool" where
  "py_in key value =
     (case value of PDict d \<Rightarrow> has_key d key | PStr s \<Rightarrow> str_contains key s | _ \<Rightarrow> False)"

definition is_dict :: "env \<Rightarrow> pyval \<Rightarrow> bool" where
  "is_dict E value =
     (case value of PDict d \<Rightarrow> True | PStr s \<Rightarrow> json_is_dict E s | _ \<Rightarrow> False)"

definition is_iterable :: "pyval \<Rightarrow> bool" where
  "is_iterable value = (case value of PList xs \<Rightarrow> True | PDict d \<Rightarrow> True | _ \<Rightarrow> False)"

definition iter_items :: "pyval \<Rightarrow> pyval list" where
  "iter_items value =
     (case value of PList xs \<Rightarrow> xs | PDict d \<Rightarrow> map (\<lambda>kv. PStr (fst kv)) d | _ \<Rightarrow> [])"

section \<open>BarData\<close>

record BarData =
  border_color :: pyval
  border_width :: pyval
  dash_style :: pyval
  point_width :: pyval
  bar_parent :: pdict

text \<open>
  The setter of \<^verbatim>\<open>border_color\<close>, branch by branch. \<^verbatim>\<open>Gradient(**value)\<close> and
  \<^verbatim>\<open>Pattern(**value)\<close> receive the dictionary as keyword arguments.
\<close>

definition border_color_setter :: "env \<Rightarrow> pyval \<Rightarrow> error + pyval" where
  "border_color_setter E value =
     (if \<not> truthy value then Inr PNone
      else if isinstance value [''Gradient'', ''Pattern''] then Inr value
      else if is_dict_or_str value \<and> py_in ''linearGradient'' value then
        (case Gradient_from_json E value of
           Inr g \<Rightarrow> Inr g
         | Inl e \<Rightarrow>
             if is_ValueError E e then
               (if is_dict_instance value then Gradient_from_dict E value
                else validators_string value False)
             else Inl e)
      else if is_dict_instance value \<and> py_in ''linear_gradient'' value then
        (case value of PDict d \<Rightarrow> Gradient_init E d | _ \<Rightarrow> Inl TypeError)
      else if is_dict_or_str value \<and> py_in ''patternOptions'' value then
        (case Pattern_from_json E value of
           Inr g \<Rightarrow> Inr g
         | Inl e \<Rightarrow>
             if is_ValueError E e then
               (if is_dict_instance value then Pattern_from_dict E value
                else validators_string value False)
             else Inl e)
      else if is_dict_instance value \<and> py_in ''pattern_options'' value then
        (case value of PDict d \<Rightarrow> Pattern_init E d | _ \<Rightarrow> Inl TypeError)
      else Inl HighchartsValueError)"

definition dash_style_setter :: "env \<Rightarrow> pyval \<Rightarrow> error + pyval" where
  "dash_style_setter E value =
     (if \<not> truthy value then Inr PNone
      else and_then (validators_string value False) (\<lambda>v.
        if v \<notin> set (map PStr (SUPPORTED_DASH_STYLE_VALUES E)) then Inl HighchartsValueError
        else Inr v))"

text \<open>
  The constructor pops its own four keyword arguments, assigns each through its setter and
  hands the remaining keyword arguments to the constructor of the parent class.
\<close>

definition BarData_init :: "env \<Rightarrow> pdict \<Rightarrow> error + BarData" where
  "BarData_init E kwargs =
     (case dict_pop kwargs ''border_color'' PNone of (a1, kwargs1) \<Rightarrow>
      and_then (border_color_setter E a1) (\<lambda>v1.
     (case dict_pop kwargs1 ''border_width'' PNone of (a2, kwargs2) \<Rightarrow>
      and_then (validators_numeric E a2 True (Some 0)) (\<lambda>v2.
     (case dict_pop kwargs2 ''dash_style'' PNone of (a3, kwargs3) \<Rightarrow>
      and_then (dash_style_setter E a3) (\<lambda>v3.
     (case dict_pop kwargs3 ''point_width'' PNone of (a4, kwargs4) \<Rightarrow>
      and_then (validators_numeric E a4 True None) (\<lambda>v4.
      and_then (CartesianData_init E kwargs4) (\<lambda>p.
      Inr \<lparr> border_color = v1, border_width = v2, dash_style = v3, point_width = v4,
            bar_parent = p \<rparr>)))))))))"

text \<open>
  The export starts from the four own keys, copies every key of the parent's export over
  them (\<^verbatim>\<open>super().to_dict() or {}\<close>) and trims the result. A dictionary has each key
  once, so copying key by key is copying item by item.
\<close>

definition merge_parent :: "pdict \<Rightarrow> pdict \<Rightarrow> pdict" where
  "merge_parent parent_as_dict untrimmed =
     fold (\<lambda>kv acc. AList.update (fst kv) (snd kv) acc) parent_as_dict untrimmed"

definition BarData_untrimmed :: "BarData \<Rightarrow> pdict" where
  "BarData_untrimmed self =
     [(''borderColor'', border_color self),
      (''borderWidth'', border_width self),
      (''dashStyle'', dash_style self),
      (''pointWidth'', point_width self)]"

definition BarData_to_dict :: "env \<Rightarrow> BarData \<Rightarrow> pdict" where
  "BarData_to_dict E self =
     (let parent_as_dict =
            (case CartesianData_to_dict E (bar_parent self) of None \<Rightarrow> [] | Some d \<Rightarrow> d)
      in trim_dict (merge_parent parent_as_dict (BarData_untrimmed self)))"

section \<open>WindBarbData\<close>

record WindBarbData =
  wb_direction :: pyval
  wb_value :: pyval
  wb_parent :: pdict

definition WindBarbData_init :: "env \<Rightarrow> pdict \<Rightarrow> error + WindBarbData" where
  "WindBarbData_init E kwargs =
     (case dict_pop kwargs ''direction'' PNone of (a1, kwargs1) \<Rightarrow>
      and_then (validators_numeric E a1 True None) (\<lambda>v1.
     (case dict_pop kwargs1 ''value'' PNone of (a2, kwargs2) \<Rightarrow>
      and_then (validators_numeric E a2 True None) (\<lambda>v2.
      and_then (CartesianData_init E kwargs2) (\<lambda>p.
      Inr \<lparr> wb_direction = v1, wb_value = v2, wb_parent = p \<rparr>)))))"

definition WindBarbData_table :: field_table where
  "WindBarbData_table =
     [(''accessibility'', ''accessibility'', PNone),
      (''class_name'', ''className'', PNone),
      (''color'', ''color'', PNone),
      (''color_index'', ''colorIndex'', PNone),
      (''custom'', ''custom'', PNone),
      (''description'', ''description'', PNone),
      (''events'', ''events'', PNone),
      (''id'', ''id'', PNone),
      (''label_rank'', ''labelrank'', PNone),
      (''name'', ''name'', PNone),
      (''selected'', ''selected'', PNone),
      (''data_labels'', ''dataLabels'', PNone),
      (''drag_drop'', ''dragDrop'', PNone),
      (''drilldown'', ''drilldown'', PNone),
      (''marker'', ''marker'', PNone),
      (''x'', ''x'', PNone),
      (''y'', ''y'', PNone),
      (''direction'', ''direction'', PNone),
      (''value'', ''value'', PNone)]"

text \<open>
  Modelled from the spec: \<^verbatim>\<open>HighchartsMeta.from_dict\<close> (the module \<^verbatim>\<open>metaclasses\<close> is
  not among the sources). It renames the external keys and substitutes the defaults, which
  is the class's \<^verbatim>\<open>_get_kwargs_from_dict\<close>, and hands the result to the constructor.
  The \<^verbatim>\<open>pop\<close> calls need a dictionary.
\<close>

definition WindBarbData_from_dict :: "env \<Rightarrow> pyval \<Rightarrow> error + WindBarbData" where
  "WindBarbData_from_dict E as_dict =
     (case as_dict of
        PDict d \<Rightarrow> WindBarbData_init E (fst (pop_fields WindBarbData_table d []))
      | _ \<Rightarrow> Inl AttributeError)"

text \<open>An instance as a value: the class name and the attributes.\<close>

definition WindBarbData_instance :: "WindBarbData \<Rightarrow> pyval" where
  "WindBarbData_instance w =
     PObj ''WindBarbData''
       ([(''_direction'', wb_direction w), (''_value'', wb_value w)] @ wb_parent w)"

definition as_instance :: "error + WindBarbData \<Rightarrow> error + pyval" where
  "as_instance r = (case r of Inl e \<Rightarrow> Inl e | Inr w \<Rightarrow> Inr (WindBarbData_instance w))"

text \<open>The body of the loop of \<^verbatim>\<open>WindBarbData.from_setter\<close>: one item to one point.\<close>

definition WindBarbData_coerce :: "env \<Rightarrow> pyval \<Rightarrow> error + pyval" where
  "WindBarbData_coerce E item =
     (if isinstance item [''WindBarbData''] then Inr item
      else if is_dict E item then as_instance (WindBarbData_from_dict E item)
      else if item = PNone \<or> item = PEnforcedNull then
        as_instance (WindBarbData_init E
          [(''x'', PNone), (''value'', PNone), (''direction'', PNone), (''y'', PNone)])
      else if is_iterable item then
        (case iter_items item of
           [i0, i1, i2, i3] \<Rightarrow>
             as_instance (WindBarbData_from_dict E
               (PDict [(''x'', i0), (''value'', i1), (''direction'', i2), (''y'', i3)]))
         | [i0, i1, i2] \<Rightarrow>
             as_instance (WindBarbData_from_dict E
               (PDict [(''x'', i0), (''value'', i1), (''direction'', i2)]))
         | _ \<Rightarrow> Inl HighchartsValueError)
      else Inl HighchartsValueError)"

fun WindBarbData_loop :: "env \<Rightarrow> pyval list \<Rightarrow> pyval list \<Rightarrow> error + pyval list" where
  "WindBarbData_loop E [] collection = Inr collection"
| "WindBarbData_loop E (item # items) collection =
     (case WindBarbData_coerce E item of
        Inl e \<Rightarrow> Inl e
      | Inr as_obj \<Rightarrow> WindBarbData_loop E items (collection @ [as_obj]))"

definition WindBarbData_from_setter :: "env \<Rightarrow> pyval \<Rightarrow> error + pyval list" where
  "WindBarbData_from_setter E value =
     (if \<not> truthy value then Inr []
      else WindBarbData_loop E (if \<not> is_iterable value then [value] else iter_items value) [])"

section \<open>XRangeData\<close>

definition XRangeData_coerce :: "env \<Rightarrow> pyval \<Rightarrow> error + pyval" where
  "XRangeData_coerce E item =
     (if isinstance item [''XRangeData''] then Inr item
      else if is_dict E item then XRangeData_from_dict E item
      else if item = PNone \<or> item = PEnforcedNull then Inr PNone
      else Inl HighchartsValueError)"

fun XRangeData_loop :: "env \<Rightarrow> pyval list \<Rightarrow> pyval list \<Rightarrow> error + pyval list" where
  "XRangeData_loop E [] collection = Inr collection"
| "XRangeData_loop E (item # items) collection =
     (case XRangeData_coerce E item of
        Inl e \<Rightarrow> Inl e
      | Inr as_obj \<Rightarrow> XRangeData_loop E items (collection @ [as_obj]))"

definition XRangeData_from_setter :: "env \<Rightarrow> pyval \<Rightarrow> error + pyval list" where
  "XRangeData_from_setter E value =
     (if \<not> truthy value then Inr []
      else XRangeData_loop E (if \<not> is_iterable value then [value] else iter_items value) [])"

section \<open>The series\<close>

text \<open>
  Every \<^verbatim>\<open>data\<close> setter of the series classes has the same body: a falsy value stores
  \<^verbatim>\<open>None\<close>, any other value stores what the \<^verbatim>\<open>from_setter\<close> of the point class
  returns. \<^verbatim>\<open>BarData.from_setter\<close> (inherited from \<^verbatim>\<open>CartesianData\<close>) and
  \<^verbatim>\<open>WeightedConnectionData.from_setter\<close> are not among the sources and are parameters;
  those of \<^verbatim>\<open>WindBarbData\<close> and \<^verbatim>\<open>XRangeData\<close> are the functions above.
\<close>

definition BaseBarSeries_data_setter ::
    "(pyval \<Rightarrow> error + pyval list) \<Rightarrow> pyval \<Rightarrow> error + pyval" where
  "BaseBarSeries_data_setter BarData_from_setter value =
     (if \<not> truthy value then Inr PNone
      else (case BarData_from_setter value of Inl e \<Rightarrow> Inl e | Inr xs \<Rightarrow> Inr (PList xs)))"

definition DependencyWheelSeries_data_setter ::
    "(pyval \<Rightarrow> error + pyval list) \<Rightarrow> pyval \<Rightarrow> error + pyval" where
  "DependencyWheelSeries_data_setter WeightedConnectionData_from_setter value =
     (if \<not> truthy value then Inr PNone
      else (case WeightedConnectionData_from_setter value of
              Inl e \<Rightarrow> Inl e | Inr xs \<Rightarrow> Inr (PList xs)))"

definition WindBarbSeries_data_setter :: "env \<Rightarrow> pyval \<Rightarrow> error + pyval" where
  "WindBarbSeries_data_setter E value =
     (if \<not> truthy value then Inr PNone
      else (case WindBarbData_from_setter E value of
              Inl e \<Rightarrow> Inl e | Inr xs \<Rightarrow> Inr (PList xs)))"

definition XRangeSeries_data_setter :: "env \<Rightarrow> pyval \<Rightarrow> error + pyval" where
  "XRangeSeries_data_setter E value =
     (if \<not> truthy value then Inr PNone
      else (case XRangeData_from_setter E value of
              Inl e \<Rightarrow> Inl e | Inr xs \<Rightarrow> Inr (PList xs)))"

text \<open>\<^verbatim>\<open>BarSeries._get_kwargs_from_dict\<close>: the table of its ninety entries.\<close>

definition BarSeries_table :: field_table where
  "BarSeries_table =
     [(''accessibility'', ''accessibility'', PNone),
      (''allow_point_select'', ''allowPointSelect'', PNone),
      (''animation'', ''animation'', PNone),
      (''class_name'', ''className'', PNone),
      (''clip'', ''clip'', PNone),
      (''color'', ''color'', PNone),
      (''cursor'', ''cursor'', PNone),
      (''custom'', ''custom'', PNone),
      (''dash_style'', ''dashStyle'', PNone),
      (''data_labels'', ''dataLabels'', PNone),
      (''description'', ''description'', PNone),
      (''enable_mouse_tracking'', ''enableMouseTracking'', PNone),
      (''events'', ''events'', PNone),
      (''include_in_data_export'', ''includeInDataExport'', PNone),
      (''keys'', ''keys'', PNone),
      (''label'', ''label'', PNone),
      (''linked_to'', ''linkedTo'', PNone),
      (''marker'', ''marker'', PNone),
      (''on_point'', ''onPoint'', PNone),
      (''opacity'', ''opacity'', PNone),
      (''point'', ''point'', PNone),
      (''point_description_formatter'', ''pointDescriptionFormatter'', PNone),
      (''selected'', ''selected'', PNone),
      (''show_checkbox'', ''showCheckbox'', PNone),
      (''show_in_legend'', ''showInLegend'', PNone),
      (''skip_keyboard_navigation'', ''skipKeyboardNavigation'', PNone),
      (''states'', ''states'', PNone),
      (''threshold'', ''threshold'', PNone),
      (''tooltip'', ''tooltip'', PNone),
      (''turbo_threshold'', ''turboThreshold'', PNone),
      (''visible'', ''visible'', PNone),
      (''animation_limit'', ''animationLimit'', PNone),
      (''boost_blending'', ''boostBlending'', PNone),
      (''boost_threshold'', ''boostThreshold'', PNone),
      (''color_axis'', ''colorAxis'', PNone),
      (''color_index'', ''colorIndex'', PNone),
      (''color_key'', ''colorKey'', PNone),
      (''connect_ends'', ''connectEnds'', PNone),
      (''connect_nulls'', ''connectNulls'', PNone),
      (''crisp'', ''crisp'', PNone),
      (''crop_threshold'', ''cropThreshold'', PNone),
      (''data_sorting'', ''dataSorting'', PNone),
      (''drag_drop'', ''dragDrop'', PNone),
      (''fill_color'', ''fillColor'', PNone),
      (''fill_opacity'', ''fillOpacity'', PNone),
      (''find_nearest_point_by'', ''findNearestPointBy'', PNone),
      (''get_extremes_for_all'', ''getExtremesForAll'', PNone),
      (''linecap'', ''linecap'', PNone),
      (''line_color'', ''lineColor'', PNone),
      (''line_width'', ''lineWidth'', PNone),
      (''negative_color'', ''negativeColor'', PNone),
      (''negative_fill_color'', ''negativeFillColor'', PNone),
      (''point_interval'', ''pointInterval'', PNone),
      (''point_interval_unit'', ''pointIntervalUnit'', PNone),
      (''point_placement'', ''pointPlacement'', PNone),
      (''point_start'', ''pointStart'', PNone),
      (''relative_x_value'', ''relativeXValue'', PNone),
      (''shadow'', ''shadow'', PNone),
      (''soft_threshold'', ''softThreshold'', PNone),
      (''stacking'', ''stacking'', PNone),
      (''step'', ''step'', PNone),
      (''track_by_area'', ''trackByArea'', PNone),
      (''zone_axis'', ''zoneAxis'', PNone),
      (''zones'', ''zones'', PNone),
      (''border_color'', ''borderColor'', PStr ''#ffffff''),
      (''border_radius'', ''borderRadius'', PInt 0),
      (''border_width'', ''borderWidth'', PNone),
      (''center_in_category'', ''centerInCategory'', PBool False),
      (''color_by_point'', ''colorByPoint'', PBool False),
      (''colors'', ''colors'', PNone),
      (''grouping'', ''grouping'', PBool True),
      (''group_padding'', ''groupPadding'', PFloat (2 / 10)),
      (''max_point_width'', ''maxPointWidth'', PNone),
      (''min_point_length'', ''minPointLength'', PInt 0),
      (''point_padding'', ''pointPadding'', PFloat (1 / 10)),
      (''point_range'', ''pointRange'', PEnforcedNull),
      (''point_width'', ''pointWidth'', PNone),
      (''depth'', ''depth'', PInt 25),
      (''edge_color'', ''edgeColor'', PNone),
      (''edge_width'', ''edgeWidth'', PInt 1),
      (''group_z_padding'', ''groupZPadding'', PInt 1),
      (''data'', ''data'', PNone),
      (''id'', ''id'', PNone),
      (''index'', ''index'', PNone),
      (''legend_index'', ''legendIndex'', PNone),
      (''name'', ''name'', PNone),
      (''stack'', ''stack'', PNone),
      (''x_axis'', ''xAxis'', PNone),
      (''y_axis'', ''yAxis'', PNone),
      (''z_index'', ''zIndex'', PNone)]"

definition BarSeries_get_kwargs_from_dict :: "pdict \<Rightarrow> pdict" where
  "BarSeries_get_kwargs_from_dict as_dict = fst (pop_fields BarSeries_table as_dict [])"

text \<open>
  Modelled from the spec: \<^verbatim>\<open>utility_functions.mro_to_dict\<close> (not among the sources).
  The export merges the exported dictionary of every parent into one dictionary, a later
  parent taking precedence over an earlier one on a key both produce. The argument is the
  list of the parents' exported dictionaries of the series, in that order of precedence.
\<close>

definition mro_to_dict :: "pdict list \<Rightarrow> pdict" where
  "mro_to_dict parents = fold merge_parent parents []"

definition BaseBarSeries_to_dict :: "pdict list \<Rightarrow> pdict" where
  "BaseBarSeries_to_dict parents = trim_dict (mro_to_dict parents)"

section \<open>An environment for the closed examples\<close>

text \<open>
  The general statements hold for every environment. The closed examples need one: this
  one reads a string of decimal digits as a float and no other string, takes a string in
  braces for a JSON object, lets the decoders of \<^verbatim>\<open>Gradient\<close> and \<^verbatim>\<open>Pattern\<close> wrap a
  dictionary into an instance, and lets the parent class keep its keyword arguments as
  attributes and export those that are set.
\<close>

fun digits_value :: "string \<Rightarrow> nat \<Rightarrow> nat option" where
  "digits_value [] acc = Some acc"
| "digits_value (c # cs) acc =
     (if (48::nat) \<le> of_char c \<and> of_char c \<le> (57::nat)
      then digits_value cs (10 * acc + (of_char c - 48))
      else None)"

definition digits_float :: "string \<Rightarrow> rat option" where
  "digits_float s = (if s = [] then None else map_option of_nat (digits_value s 0))"

definition wrap_dict :: "string \<Rightarrow> pyval \<Rightarrow> error + pyval" where
  "wrap_dict cls v = (case v of PDict d \<Rightarrow> Inr (PObj cls d) | _ \<Rightarrow> Inl AttributeError)"

definition json_of_dict_only :: "string \<Rightarrow> pyval \<Rightarrow> error + pyval" where
  "json_of_dict_only cls v = (case v of PStr s \<Rightarrow> Inl JSONDecodeError | _ \<Rightarrow> Inl TypeError)"

definition sample_env :: env where
  "sample_env =
     \<lparr> py_float = digits_float,
       json_is_dict = (\<lambda>s. s \<noteq> [] \<and> hd s = CHR ''{'' \<and> last s = CHR ''}''),
       int_has_is_integer = True,
       coerce_error_is_ValueError = False,
       DEFAULT_AFTER_CHART_FORMAT = ''{endOfChartMarker}'',
       DEFAULT_AXIS_RANGE_DATE_FORMAT = ''%Y-%m-%d %H:%M:%S'',
       DEFAULT_BEFORE_CHART_FORMAT = ''<div>{typeDescription}</div>'',
       SUPPORTED_DASH_STYLE_VALUES =
         [''Dash'', ''DashDot'', ''Dot'', ''LongDash'', ''LongDashDot'', ''LongDashDotDot'',
          ''ShortDash'', ''ShortDashDot'', ''ShortDashDotDot'', ''ShortDot'', ''Solid''],
       Gradient_from_json = json_of_dict_only ''Gradient'',
       Gradient_from_dict = wrap_dict ''Gradient'',
       Gradient_init = (\<lambda>kwargs. Inr (PObj ''Gradient'' kwargs)),
       Pattern_from_json = json_of_dict_only ''Pattern'',
       Pattern_from_dict = wrap_dict ''Pattern'',
       Pattern_init = (\<lambda>kwargs. Inr (PObj ''Pattern'' kwargs)),
       CartesianData_init = (\<lambda>kwargs. Inr kwargs),
       CartesianData_to_dict = (\<lambda>attrs. Some (trim_dict attrs)),
       XRangeData_from_dict = wrap_dict ''XRangeData'' \<rparr>"

text \<open>
  The section that \<^verbatim>\<open>ScreenReaderSection(after_chart_format = None)\<close> constructs in this
  environment, the bar point that \<^verbatim>\<open>BarData()\<close> constructs in it, and the point that
  \<^verbatim>\<open>AnnotationPoint()\<close> constructs in any.
\<close>

definition section_without_after_format :: ScreenReaderSection where
  "section_without_after_format =
     \<lparr> after_chart_format = PNone, after_chart_formatter = PNone,
       axis_range_date_format = PStr ''%Y-%m-%d %H:%M:%S'',
       before_chart_format = PStr ''<div>{typeDescription}</div>'',
       before_chart_formatter = PNone, on_play_as_sound_click = PNone,
       on_view_data_table_click = PNone \<rparr>"

definition unset_bar :: BarData where
  "unset_bar =
     \<lparr> border_color = PNone, border_width = PNone, dash_style = PNone, point_width = PNone,
       bar_parent = [] \<rparr>"

definition unset_point :: AnnotationPoint where
  "unset_point = \<lparr> pt_x = PNone, pt_x_axis = PNone, pt_y = PNone, pt_y_axis = PNone \<rparr>"

section \<open>Properties\<close>

subsection \<open>Sequencing, dictionaries and validators\<close>

lemma and_then_Inr_iff: "and_then r f = Inr y \<longleftrightarrow> (\<exists>v. r = Inr v \<and> f v = Inr y)"
  by (cases r) (auto simp: and_then_def)

lemma and_then_Inr [simp]: "and_then (Inr v) f = f v"
  by (simp add: and_then_def)

lemma and_then_Inl [simp]: "and_then (Inl e) f = Inl e"
  by (simp add: and_then_def)

lemma kwargs_pop_eq: "kwargs_pop kw k d = dict_get kw k d"
  by (simp add: kwargs_pop_def dict_pop_def dict_get_def split: option.splits)

lemma map_of_pop_other: "e \<noteq> e' \<Longrightarrow> map_of (snd (dict_pop d e' dflt)) e = map_of d e"
  by (simp add: dict_pop_def delete_conv' split: option.splits)

lemma pop_fields_keep:
  "i \<notin> fst ` set T \<Longrightarrow> map_of (fst (pop_fields T d kw)) i = map_of kw i"
  by (induction T d kw rule: pop_fields.induct) (auto simp: update_conv' split: prod.splits)

lemma pop_fields_lookup:
  "(i, e, dflt) \<in> set T \<Longrightarrow> distinct (map fst T) \<Longrightarrow> distinct (map (fst \<circ> snd) T) \<Longrightarrow>
   map_of (fst (pop_fields T d kw)) i = Some (dict_get d e dflt)"
proof (induction T d kw rule: pop_fields.induct)
  case (1 as_dict kwargs)
  then show ?case by simp
next
  case (2 internal external dflt' rest as_dict kwargs)
  show ?case
  proof (cases "(i, e, dflt) = (internal, external, dflt')")
    case True
    with 2 have "i \<notin> fst ` set rest" by auto
    with True show ?thesis
      by (auto simp: pop_fields_keep update_conv' dict_pop_def dict_get_def
               split: prod.splits option.splits)
  next
    case False
    with 2 have mem: "(i, e, dflt) \<in> set rest" by auto
    with 2 have ne: "e \<noteq> external" by (auto simp: image_iff)
    obtain v d' where p: "dict_pop as_dict external dflt' = (v, d')"
      by (cases "dict_pop as_dict external dflt'")
    from map_of_pop_other[OF ne, of as_dict dflt'] p have "map_of d' e = map_of as_dict e"
      by simp
    then have "dict_get d' e dflt = dict_get as_dict e dflt" by (simp add: dict_get_def)
    with 2 mem p show ?thesis by auto
  qed
qed

lemma pop_fields_get:
  "(i, e, dflt) \<in> set T \<Longrightarrow> distinct (map fst T) \<Longrightarrow> distinct (map (fst \<circ> snd) T) \<Longrightarrow>
   dict_get (fst (pop_fields T d kw)) i dflt' = dict_get d e dflt"
  using pop_fields_lookup[of i e dflt T d kw] by (simp add: dict_get_def)

lemma map_of_trim_dict:
  "distinct (map fst d) \<Longrightarrow>
   map_of (trim_dict d) k =
     (case map_of d k of None \<Rightarrow> None | Some v \<Rightarrow> if v = PNone then None else Some v)"
proof (induction d)
  case Nil
  then show ?case by (simp add: trim_dict_def)
next
  case (Cons a d)
  then have "k = fst a \<Longrightarrow> map_of d k = None"
    by (auto simp: map_of_eq_None_iff)
  with Cons show ?case by (cases a) (auto simp: trim_dict_def split: option.splits)
qed

lemma dict_get_trim_dict:
  "distinct (map fst d) \<Longrightarrow>
   dict_get (trim_dict d) k dflt = (if dict_get d k PNone = PNone then dflt else dict_get d k PNone)"
  by (simp add: dict_get_def map_of_trim_dict split: option.splits)

lemma vs_True_result:
  "validators_string v True = Inr w \<Longrightarrow>
     w = PNone \<or> (\<exists>s. s \<noteq> [] \<and> w = PStr s \<and> v = PStr s)"
  by (cases v) (auto simp: validators_string_def split: if_splits)

lemma vs_False_result:
  "validators_string v False = Inr w \<Longrightarrow> (\<exists>s. s \<noteq> [] \<and> w = PStr s \<and> v = PStr s)"
  by (cases v) (auto simp: validators_string_def split: if_splits)

lemma vs_True_idem:
  assumes "validators_string v True = Inr w"
  shows "validators_string w True = Inr w"
proof -
  from vs_True_result[OF assms] show ?thesis by (auto simp: validators_string_def)
qed

lemma format_setter_result:
  "after_chart_format_setter v = Inr w \<Longrightarrow> w = PNone \<or> (\<exists>s. w = PStr s)"
  "before_chart_format_setter v = Inr w \<Longrightarrow> w = PNone \<or> (\<exists>s. w = PStr s)"
  by (auto simp: after_chart_format_setter_def before_chart_format_setter_def
           dest: vs_False_result split: if_splits)

lemma format_setter_str:
  "after_chart_format_setter (PStr s) = Inr (PStr s)"
  "before_chart_format_setter (PStr s) = Inr (PStr s)"
  by (auto simp: after_chart_format_setter_def before_chart_format_setter_def
           validators_string_def)

lemma check_minimum_None [simp]: "check_minimum None v = Inr v"
  by (simp add: check_minimum_def)

lemma numeric_result:
  "validators_numeric E v ae None = Inr w \<Longrightarrow>
     w = PNone \<or> (\<exists>n. w = PInt n) \<or> (\<exists>b. w = PBool b) \<or> (\<exists>r. w = PFloat r)"
  by (cases v) (auto simp: validators_numeric_def split: if_splits option.splits)

lemma numeric_idem:
  assumes "validators_numeric E v True None = Inr w"
  shows "validators_numeric E w True None = Inr w"
  using numeric_result[OF assms] by (auto simp: validators_numeric_def)

lemma integer_result:
  assumes "validators_integer E v = Inr w"
  shows "(\<exists>n. w = PInt n) \<or> (\<exists>b. w = PBool b \<and> \<not> int_has_is_integer E)"
proof -
  from assms obtain u where u: "validators_numeric E v False None = Inr u"
    and w: "(case u of
         PFloat r \<Rightarrow> if of_int \<lfloor>r\<rfloor> = r then Inr (PInt \<lfloor>r\<rfloor>) else Inl NotAnIntegerError
       | PInt n \<Rightarrow> Inr (PInt n)
       | PBool b \<Rightarrow> if int_has_is_integer E then Inr (PInt (if b then 1 else 0))
                     else Inr (PBool b)
       | _ \<Rightarrow> Inr u) = Inr w"
    by (auto simp: validators_integer_def and_then_Inr_iff)
  from u have "u \<noteq> PNone"
    by (cases v) (auto simp: validators_numeric_def split: if_splits option.splits)
  with numeric_result[OF u] w show ?thesis by (auto split: if_splits)
qed

lemma integer_idem:
  assumes "validators_integer E v = Inr w"
  shows "validators_integer E w = Inr w"
proof -
  from integer_result[OF assms] consider (i) n where "w = PInt n"
    | (b) b where "w = PBool b" "\<not> int_has_is_integer E" by auto
  then show ?thesis
    by cases (simp_all add: validators_integer_def and_then_def validators_numeric_def)
qed

lemma x_axis_idem: "x_axis_setter E v = Inr w \<Longrightarrow> x_axis_setter E w = Inr w"
proof (cases "v = PNone \<or> v = PStr []")
  case True
  assume "x_axis_setter E v = Inr w"
  with True have "w = PNone" by (auto simp: x_axis_setter_def)
  then show ?thesis by (simp add: x_axis_setter_def)
next
  case False
  assume a: "x_axis_setter E v = Inr w"
  show ?thesis
  proof (cases "validators_integer E v")
    case (Inr n)
    with a False have wn: "w = n" by (auto simp: x_axis_setter_def)
    from integer_result[OF Inr] have "w \<noteq> PNone" "w \<noteq> PStr []" using wn by auto
    moreover from integer_idem[OF Inr] have "validators_integer E w = Inr w" using wn by simp
    ultimately show ?thesis by (simp add: x_axis_setter_def)
  next
    case (Inl e)
    with a False obtain s where "s \<noteq> []" "w = PStr s" "v = PStr s"
      by (auto simp: x_axis_setter_def split: if_splits sum.splits dest: vs_False_result)
    with a show ?thesis by simp
  qed
qed

lemma y_axis_is_x_axis: "y_axis_setter E v = x_axis_setter E v"
  by (simp add: y_axis_setter_def x_axis_setter_def)

subsection \<open>Deserialisation, unfolded\<close>

lemma AnnotationPoint_from_dict_unfold:
  "AnnotationPoint_from_dict E d =
     and_then (validators_numeric E (dict_get d ''x'' PNone) True None) (\<lambda>v1.
     and_then (x_axis_setter E (dict_get d ''xAxis'' PNone)) (\<lambda>v2.
     and_then (validators_numeric E (dict_get d ''y'' PNone) True None) (\<lambda>v3.
     and_then (y_axis_setter E (dict_get d ''yAxis'' PNone)) (\<lambda>v4.
     Inr \<lparr> pt_x = v1, pt_x_axis = v2, pt_y = v3, pt_y_axis = v4 \<rparr>))))"
proof -
  have t: "distinct (map fst AnnotationPoint_table)"
          "distinct (map (fst \<circ> snd) AnnotationPoint_table)"
    by (simp_all add: AnnotationPoint_table_def)
  have g: "\<And>i e dflt dflt'. (i, e, dflt) \<in> set AnnotationPoint_table \<Longrightarrow>
      dict_get (fst (pop_fields AnnotationPoint_table d [])) i dflt' = dict_get d e dflt"
    using pop_fields_get[OF _ t] by blast
  have "dict_get (fst (pop_fields AnnotationPoint_table d [])) ''x'' PNone = dict_get d ''x'' PNone"
       "dict_get (fst (pop_fields AnnotationPoint_table d [])) ''x_axis'' PNone = dict_get d ''xAxis'' PNone"
       "dict_get (fst (pop_fields AnnotationPoint_table d [])) ''y'' PNone = dict_get d ''y'' PNone"
       "dict_get (fst (pop_fields AnnotationPoint_table d [])) ''y_axis'' PNone = dict_get d ''yAxis'' PNone"
    by (rule g, simp add: AnnotationPoint_table_def)+
  then show ?thesis
    by (simp add: AnnotationPoint_from_dict_def AnnotationPoint_init_def kwargs_pop_eq)
qed

lemma ScreenReaderSection_from_dict_unfold:
  "ScreenReaderSection_from_dict E d =
     and_then (after_chart_format_setter
        (dict_get d ''afterChartFormat'' (PStr (DEFAULT_AFTER_CHART_FORMAT E)))) (\<lambda>v1.
     and_then (validators_string (dict_get d ''afterChartFormatter'' PNone) True) (\<lambda>v2.
     and_then (validators_string
        (dict_get d ''axisRangeDateFormat'' (PStr (DEFAULT_AXIS_RANGE_DATE_FORMAT E)))
        True) (\<lambda>v3.
     and_then (before_chart_format_setter
        (dict_get d ''beforeChartFormat'' (PStr (DEFAULT_BEFORE_CHART_FORMAT E)))) (\<lambda>v4.
     and_then (validators_string (dict_get d ''beforeChartFormatter'' PNone) True) (\<lambda>v5.
     and_then (validators_string (dict_get d ''onPlayAsSoundClick'' PNone) True) (\<lambda>v6.
     and_then (validators_string (dict_get d ''onViewDataTableClick'' PNone) True) (\<lambda>v7.
     Inr \<lparr> after_chart_format = v1, after_chart_formatter = v2,
           axis_range_date_format = v3, before_chart_format = v4,
           before_chart_formatter = v5, on_play_as_sound_click = v6,
           on_view_data_table_click = v7 \<rparr>)))))))"
proof -
  let ?T = "ScreenReaderSection_table E"
  have t: "distinct (map fst ?T)" "distinct (map (fst \<circ> snd) ?T)"
    by (simp_all add: ScreenReaderSection_table_def)
  have g: "\<And>i e dflt dflt'. (i, e, dflt) \<in> set ?T \<Longrightarrow>
      dict_get (fst (pop_fields ?T d [])) i dflt' = dict_get d e dflt"
    using pop_fields_get[OF _ t] by blast
  have "\<And>x. dict_get (fst (pop_fields ?T d [])) ''after_chart_format'' x
          = dict_get d ''afterChartFormat'' (PStr (DEFAULT_AFTER_CHART_FORMAT E))"
       "\<And>x. dict_get (fst (pop_fields ?T d [])) ''after_chart_formatter'' x
          = dict_get d ''afterChartFormatter'' PNone"
       "\<And>x. dict_get (fst (pop_fields ?T d [])) ''axis_range_date_format'' x
          = dict_get d ''axisRangeDateFormat'' (PStr (DEFAULT_AXIS_RANGE_DATE_FORMAT E))"
       "\<And>x. dict_get (fst (pop_fields ?T d [])) ''before_chart_format'' x
          = dict_get d ''beforeChartFormat'' (PStr (DEFAULT_BEFORE_CHART_FORMAT E))"
       "\<And>x. dict_get (fst (pop_fields ?T d [])) ''before_chart_formatter'' x
          = dict_get d ''beforeChartFormatter'' PNone"
       "\<And>x. dict_get (fst (pop_fields ?T d [])) ''on_play_as_sound_click'' x
          = dict_get d ''onPlayAsSoundClick'' PNone"
       "\<And>x. dict_get (fst (pop_fields ?T d [])) ''on_view_data_table_click'' x
          = dict_get d ''onViewDataTableClick'' PNone"
    by (rule g, simp add: ScreenReaderSection_table_def)+
  then show ?thesis
    by (simp add: ScreenReaderSection_from_dict_def ScreenReaderSection_init_def kwargs_pop_eq)
qed

subsection \<open>The setters of the chart formats\<close>

text \<open>
  C10. The setters of \<^verbatim>\<open>after_chart_format\<close> and \<^verbatim>\<open>before_chart_format\<close> store
  \<^verbatim>\<open>None\<close> for \<^verbatim>\<open>None\<close> and the empty string for any other falsy value; a truthy
  value goes through the string validator, which stores it only if it is a non-empty
  string; the empty string and \<^verbatim>\<open>None\<close> are stored differently, and a falsy value
  never raises.
\<close>

theorem C10_chart_format_setters:
  "after_chart_format_setter PNone = Inr PNone
   \<and> before_chart_format_setter PNone = Inr PNone
   \<and> (\<not> truthy v \<and> v \<noteq> PNone \<longrightarrow>
        after_chart_format_setter v = Inr (PStr [])
      \<and> before_chart_format_setter v = Inr (PStr []))
   \<and> (truthy v \<longrightarrow>
        after_chart_format_setter v = validators_string v False
      \<and> before_chart_format_setter v = validators_string v False
      \<and> (\<forall>w. validators_string v False = Inr w \<longrightarrow>
             (\<exists>s. s \<noteq> [] \<and> v = PStr s \<and> w = PStr s)))
   \<and> after_chart_format_setter (PStr []) \<noteq> after_chart_format_setter PNone
   \<and> before_chart_format_setter (PStr []) \<noteq> before_chart_format_setter PNone
   \<and> (\<not> truthy v \<longrightarrow>
        (\<exists>w. after_chart_format_setter v = Inr w) \<and> (\<exists>w. before_chart_format_setter v = Inr w))"
proof -
  have t: "truthy v \<Longrightarrow> v \<noteq> PNone" by auto
  have s: "\<And>w. validators_string v False = Inr w \<Longrightarrow> \<exists>s. s \<noteq> [] \<and> v = PStr s \<and> w = PStr s"
    using vs_False_result by blast
  show ?thesis
    using t s by (auto simp: after_chart_format_setter_def before_chart_format_setter_def)
qed

theorem C10_chart_format_setters_witness:
  "\<not> truthy (PInt 0) \<and> PInt 0 \<noteq> PNone
   \<and> after_chart_format_setter (PInt 0) = Inr (PStr [])
   \<and> before_chart_format_setter (PInt 0) = Inr (PStr [])
   \<and> truthy (PStr ''End of chart'')
   \<and> after_chart_format_setter (PStr ''End of chart'') = Inr (PStr ''End of chart'')
   \<and> before_chart_format_setter (PStr ''End of chart'') = Inr (PStr ''End of chart'')"
  using C10_chart_format_setters[of "PInt 0"] C10_chart_format_setters[of "PStr ''End of chart''"]
  by (simp add: validators_string_def)

subsection \<open>Round trips\<close>

lemma AnnotationPoint_round_trip:
  assumes "AnnotationPoint_init E f = Inr p"
  shows "AnnotationPoint_from_dict E (AnnotationPoint_to_dict p) = Inr p"
proof -
  from assms obtain a b c d where
    n1: "validators_numeric E a True None = Inr (pt_x p)" and
    n2: "x_axis_setter E b = Inr (pt_x_axis p)" and
    n3: "validators_numeric E c True None = Inr (pt_y p)" and
    n4: "y_axis_setter E d = Inr (pt_y_axis p)"
    by (auto simp: AnnotationPoint_init_def and_then_Inr_iff)
  have g: "dict_get (AnnotationPoint_to_dict p) ''x'' PNone = pt_x p"
          "dict_get (AnnotationPoint_to_dict p) ''xAxis'' PNone = pt_x_axis p"
          "dict_get (AnnotationPoint_to_dict p) ''y'' PNone = pt_y p"
          "dict_get (AnnotationPoint_to_dict p) ''yAxis'' PNone = pt_y_axis p"
    by (simp_all add: AnnotationPoint_to_dict_def dict_get_def)
  from n4 have n4': "x_axis_setter E d = Inr (pt_y_axis p)" by (simp add: y_axis_is_x_axis)
  show ?thesis
    by (simp add: AnnotationPoint_from_dict_unfold g numeric_idem[OF n1] numeric_idem[OF n3]
          x_axis_idem[OF n2] x_axis_idem[OF n4'] y_axis_is_x_axis)
qed

lemma ScreenReaderSection_to_json_get:
  "dict_get (ScreenReaderSection_to_json s) ''afterChartFormat'' x
     = (if after_chart_format s = PNone then x else after_chart_format s)"
  "dict_get (ScreenReaderSection_to_json s) ''afterChartFormatter'' x
     = (if after_chart_formatter s = PNone then x else after_chart_formatter s)"
  "dict_get (ScreenReaderSection_to_json s) ''axisRangeDateFormat'' x
     = (if axis_range_date_format s = PNone then x else axis_range_date_format s)"
  "dict_get (ScreenReaderSection_to_json s) ''beforeChartFormat'' x
     = (if before_chart_format s = PNone then x else before_chart_format s)"
  "dict_get (ScreenReaderSection_to_json s) ''beforeChartFormatter'' x
     = (if before_chart_formatter s = PNone then x else before_chart_formatter s)"
  "dict_get (ScreenReaderSection_to_json s) ''onPlayAsSoundClick'' x
     = (if on_play_as_sound_click s = PNone then x else on_play_as_sound_click s)"
  "dict_get (ScreenReaderSection_to_json s) ''onViewDataTableClick'' x
     = (if on_view_data_table_click s = PNone then x else on_view_data_table_click s)"
  by (simp_all add: ScreenReaderSection_to_json_def map_of_trim_dict dict_get_def)

lemma ScreenReaderSection_round_trip:
  assumes "ScreenReaderSection_init E g = Inr s"
  shows "ScreenReaderSection_from_dict E (ScreenReaderSection_to_json s)
           = Inr (with_schema_defaults E s)"
proof -
  from assms obtain a1 a2 a3 a4 a5 a6 a7 where
    r1: "after_chart_format_setter a1 = Inr (after_chart_format s)" and
    r2: "validators_string a2 True = Inr (after_chart_formatter s)" and
    r3: "validators_string a3 True = Inr (axis_range_date_format s)" and
    r4: "before_chart_format_setter a4 = Inr (before_chart_format s)" and
    r5: "validators_string a5 True = Inr (before_chart_formatter s)" and
    r6: "validators_string a6 True = Inr (on_play_as_sound_click s)" and
    r7: "validators_string a7 True = Inr (on_view_data_table_click s)"
    by (auto simp: ScreenReaderSection_init_def and_then_Inr_iff)
  have v1: "after_chart_format_setter
              (if after_chart_format s = PNone then PStr (DEFAULT_AFTER_CHART_FORMAT E)
               else after_chart_format s)
            = Inr (if after_chart_format s = PNone then PStr (DEFAULT_AFTER_CHART_FORMAT E)
                   else after_chart_format s)"
    using format_setter_result(1)[OF r1] by (auto simp: format_setter_str)
  have v4: "before_chart_format_setter
              (if before_chart_format s = PNone then PStr (DEFAULT_BEFORE_CHART_FORMAT E)
               else before_chart_format s)
            = Inr (if before_chart_format s = PNone then PStr (DEFAULT_BEFORE_CHART_FORMAT E)
                   else before_chart_format s)"
    using format_setter_result(2)[OF r4] by (auto simp: format_setter_str)
  have v3: "validators_string
              (if axis_range_date_format s = PNone then PStr (DEFAULT_AXIS_RANGE_DATE_FORMAT E)
               else axis_range_date_format s) True
            = Inr (if axis_range_date_format s = PNone then
                     (if DEFAULT_AXIS_RANGE_DATE_FORMAT E = [] then PNone
                      else PStr (DEFAULT_AXIS_RANGE_DATE_FORMAT E))
                   else axis_range_date_format s)"
    using vs_True_result[OF r3] by (auto simp: validators_string_def)
  have v: "\<And>w. (if w = PNone then PNone else w) = w" by simp
  show ?thesis
    by (simp add: ScreenReaderSection_from_dict_unfold ScreenReaderSection_to_json_get
          v1 v3 v4 v vs_True_idem[OF r2] vs_True_idem[OF r5] vs_True_idem[OF r6]
          vs_True_idem[OF r7] with_schema_defaults_def)
qed

text \<open>
  C2 (as amended). A point built by the constructor comes back unchanged from
  \<^verbatim>\<open>from_dict(to_dict())\<close>. A section built by the constructor comes back from
  \<^verbatim>\<open>from_dict(to_json())\<close> with every field equal, except that a field with a schema
  default that is stored as \<^verbatim>\<open>None\<close> comes back as that default; it comes back unchanged
  when none of the three fields with a schema default is \<^verbatim>\<open>None\<close>.
\<close>

theorem C2_round_trip_modulo_defaults:
  "(AnnotationPoint_init E f = Inr p \<longrightarrow>
      AnnotationPoint_from_dict E (AnnotationPoint_to_dict p) = Inr p)
   \<and> (ScreenReaderSection_init E g = Inr s \<longrightarrow>
      ScreenReaderSection_from_dict E (ScreenReaderSection_to_json s)
        = Inr (with_schema_defaults E s))
   \<and> (ScreenReaderSection_init E g = Inr s \<and> after_chart_format s \<noteq> PNone
        \<and> axis_range_date_format s \<noteq> PNone \<and> before_chart_format s \<noteq> PNone \<longrightarrow>
      ScreenReaderSection_from_dict E (ScreenReaderSection_to_json s) = Inr s)"
proof -
  have "with_schema_defaults E s = s"
    if "after_chart_format s \<noteq> PNone" "axis_range_date_format s \<noteq> PNone"
       "before_chart_format s \<noteq> PNone"
    using that by (simp add: with_schema_defaults_def)
  then show ?thesis
    using AnnotationPoint_round_trip ScreenReaderSection_round_trip by metis
qed

theorem C2_round_trip_modulo_defaults_witness:
  "AnnotationPoint_init sample_env [(''x'', PInt 1), (''x_axis'', PInt 0), (''y'', PStr ''25'')]
     = Inr \<lparr> pt_x = PInt 1, pt_x_axis = PInt 0, pt_y = PFloat 25, pt_y_axis = PNone \<rparr>
   \<and> AnnotationPoint_from_dict sample_env
       (AnnotationPoint_to_dict \<lparr> pt_x = PInt 1, pt_x_axis = PInt 0, pt_y = PFloat 25, pt_y_axis = PNone \<rparr>)
     = Inr \<lparr> pt_x = PInt 1, pt_x_axis = PInt 0, pt_y = PFloat 25, pt_y_axis = PNone \<rparr>
   \<and> ScreenReaderSection_init sample_env [(''after_chart_format'', PStr ''<p>End</p>'')]
     = Inr (section_without_after_format \<lparr> after_chart_format := PStr ''<p>End</p>'' \<rparr>)
   \<and> ScreenReaderSection_from_dict sample_env
       (ScreenReaderSection_to_json
          (section_without_after_format \<lparr> after_chart_format := PStr ''<p>End</p>'' \<rparr>))
     = Inr (section_without_after_format \<lparr> after_chart_format := PStr ''<p>End</p>'' \<rparr>)"
proof -
  have a: "AnnotationPoint_init sample_env
             [(''x'', PInt 1), (''x_axis'', PInt 0), (''y'', PStr ''25'')]
     = Inr \<lparr> pt_x = PInt 1, pt_x_axis = PInt 0, pt_y = PFloat 25, pt_y_axis = PNone \<rparr>"
    by (simp add: AnnotationPoint_init_def kwargs_pop_eq dict_get_def validators_numeric_def
          x_axis_setter_def y_axis_setter_def validators_integer_def sample_env_def
          digits_float_def)
  have b: "ScreenReaderSection_init sample_env [(''after_chart_format'', PStr ''<p>End</p>'')]
     = Inr (section_without_after_format \<lparr> after_chart_format := PStr ''<p>End</p>'' \<rparr>)"
    by (simp add: ScreenReaderSection_init_def kwargs_pop_eq dict_get_def
          validators_string_def after_chart_format_setter_def before_chart_format_setter_def
          sample_env_def section_without_after_format_def)
  show ?thesis
    using a b
      C2_round_trip_modulo_defaults[of sample_env
        "[(''x'', PInt 1), (''x_axis'', PInt 0), (''y'', PStr ''25'')]"
        "\<lparr> pt_x = PInt 1, pt_x_axis = PInt 0, pt_y = PFloat 25, pt_y_axis = PNone \<rparr>"
        "[(''after_chart_format'', PStr ''<p>End</p>'')]"
        "section_without_after_format \<lparr> after_chart_format := PStr ''<p>End</p>'' \<rparr>"]
    by (simp add: section_without_after_format_def with_schema_defaults_def)
qed

theorem C2_round_trip_counterexample:
  "ScreenReaderSection_init sample_env [(''after_chart_format'', PNone)]
     = Inr section_without_after_format
   \<and> ScreenReaderSection_from_dict sample_env
       (ScreenReaderSection_to_json section_without_after_format)
     = Inr (section_without_after_format
              \<lparr> after_chart_format := PStr ''{endOfChartMarker}'' \<rparr>)
   \<and> ScreenReaderSection_from_dict sample_env
       (ScreenReaderSection_to_json section_without_after_format)
     \<noteq> Inr section_without_after_format"
proof -
  have a: "ScreenReaderSection_init sample_env [(''after_chart_format'', PNone)]
     = Inr section_without_after_format"
    by (simp add: ScreenReaderSection_init_def kwargs_pop_eq dict_get_def
          validators_string_def after_chart_format_setter_def before_chart_format_setter_def
          sample_env_def section_without_after_format_def)
  have b: "ScreenReaderSection_from_dict sample_env
       (ScreenReaderSection_to_json section_without_after_format)
     = Inr (section_without_after_format
              \<lparr> after_chart_format := PStr ''{endOfChartMarker}'' \<rparr>)"
    by (simp add: ScreenReaderSection_from_dict_unfold ScreenReaderSection_to_json_get
          validators_string_def after_chart_format_setter_def before_chart_format_setter_def
          sample_env_def section_without_after_format_def)
  show ?thesis using a b by (simp add: section_without_after_format_def)
qed

subsection \<open>Trimming\<close>

lemma ScreenReaderSection_to_json_trimmed:
  "map_of (ScreenReaderSection_to_json s) k \<noteq> Some PNone"
  by (simp add: ScreenReaderSection_to_json_def map_of_trim_dict split: option.splits)

text \<open>
  C3. The export is to hold no key whose field is unset. \<^verbatim>\<open>AnnotationPoint.to_dict\<close>
  returns its dictionary untrimmed: the point constructed without arguments has all four
  fields unset and exports all four keys, each with the value \<^verbatim>\<open>None\<close>.
\<close>

theorem C3_annotation_point_exports_unset_keys:
  "AnnotationPoint_init E [] = Inr unset_point
   \<and> AnnotationPoint_to_dict unset_point
       = [(''x'', PNone), (''xAxis'', PNone), (''y'', PNone), (''yAxis'', PNone)]"
  by (simp add: AnnotationPoint_init_def kwargs_pop_eq dict_get_def validators_numeric_def
        x_axis_setter_def y_axis_setter_def unset_point_def AnnotationPoint_to_dict_def)

subsection \<open>Renaming and defaults\<close>

lemma BarSeries_table_distinct:
  "distinct (map fst BarSeries_table)" "distinct (map (fst \<circ> snd) BarSeries_table)"
  by (simp_all add: BarSeries_table_def)

lemma BarSeries_kwargs_lookup:
  "(i, e, dflt) \<in> set BarSeries_table \<Longrightarrow>
   map_of (BarSeries_get_kwargs_from_dict d) i = Some (dict_get d e dflt)"
  unfolding BarSeries_get_kwargs_from_dict_def
  by (rule pop_fields_lookup[OF _ BarSeries_table_distinct])

lemma ScreenReaderSection_table_distinct:
  "distinct (map fst (ScreenReaderSection_table E))"
  "distinct (map (fst \<circ> snd) (ScreenReaderSection_table E))"
  by (simp_all add: ScreenReaderSection_table_def)

lemma ScreenReaderSection_default_after_chart_format:
  assumes "map_of d ''afterChartFormat'' = None"
    and "ScreenReaderSection_from_dict E d = Inr s"
  shows "after_chart_format s = PStr (DEFAULT_AFTER_CHART_FORMAT E)"
proof -
  from assms(1) have "dict_get d ''afterChartFormat'' (PStr (DEFAULT_AFTER_CHART_FORMAT E))
      = PStr (DEFAULT_AFTER_CHART_FORMAT E)"
    by (simp add: dict_get_def)
  with assms(2) show ?thesis
    by (auto simp: ScreenReaderSection_from_dict_unfold and_then_Inr_iff format_setter_str)
qed

text \<open>
  C8. Deserialisation renames every external key of the table to its internal name and
  puts the table's default where the key is absent: for \<^verbatim>\<open>ScreenReaderSection.from_dict\<close>
  and for \<^verbatim>\<open>BarSeries._get_kwargs_from_dict\<close> every internal name holds the value of its
  external key or else its default. A dictionary lacking \<^verbatim>\<open>afterChartFormat\<close> yields a
  section whose \<^verbatim>\<open>after_chart_format\<close> is \<^verbatim>\<open>DEFAULT_AFTER_CHART_FORMAT\<close>; a dictionary
  lacking \<^verbatim>\<open>borderColor\<close> yields \<^verbatim>\<open>border_color = '#ffffff'\<close>, and likewise
  \<^verbatim>\<open>border_radius = 0\<close>, \<^verbatim>\<open>grouping = True\<close>, \<^verbatim>\<open>group_padding = 0.2\<close> and the
  enforced null for \<^verbatim>\<open>point_range\<close>.
\<close>

theorem C8_from_dict_renames_and_defaults:
  "(\<forall>(i, e, dflt) \<in> set (ScreenReaderSection_table E).
       map_of (fst (pop_fields (ScreenReaderSection_table E) d [])) i = Some (dict_get d e dflt))
   \<and> (map_of d ''afterChartFormat'' = None \<and> ScreenReaderSection_from_dict E d = Inr s \<longrightarrow>
        after_chart_format s = PStr (DEFAULT_AFTER_CHART_FORMAT E))
   \<and> (\<forall>(i, e, dflt) \<in> set BarSeries_table.
       map_of (BarSeries_get_kwargs_from_dict d') i = Some (dict_get d' e dflt))
   \<and> (map_of d' ''borderColor'' = None \<longrightarrow>
        map_of (BarSeries_get_kwargs_from_dict d') ''border_color'' = Some (PStr ''#ffffff''))
   \<and> (map_of d' ''borderRadius'' = None \<longrightarrow>
        map_of (BarSeries_get_kwargs_from_dict d') ''border_radius'' = Some (PInt 0))
   \<and> (map_of d' ''grouping'' = None \<longrightarrow>
        map_of (BarSeries_get_kwargs_from_dict d') ''grouping'' = Some (PBool True))
   \<and> (map_of d' ''groupPadding'' = None \<longrightarrow>
        map_of (BarSeries_get_kwargs_from_dict d') ''group_padding'' = Some (PFloat (2 / 10)))
   \<and> (map_of d' ''pointRange'' = None \<longrightarrow>
        map_of (BarSeries_get_kwargs_from_dict d') ''point_range'' = Some PEnforcedNull)"
proof -
  have a: "\<forall>(i, e, dflt) \<in> set (ScreenReaderSection_table E).
       map_of (fst (pop_fields (ScreenReaderSection_table E) d [])) i = Some (dict_get d e dflt)"
    using pop_fields_lookup[OF _ ScreenReaderSection_table_distinct] by blast
  have b: "\<forall>(i, e, dflt) \<in> set BarSeries_table.
       map_of (BarSeries_get_kwargs_from_dict d') i = Some (dict_get d' e dflt)"
    using BarSeries_kwargs_lookup by blast
  have m: "(''border_color'', ''borderColor'', PStr ''#ffffff'') \<in> set BarSeries_table"
          "(''border_radius'', ''borderRadius'', PInt 0) \<in> set BarSeries_table"
          "(''grouping'', ''grouping'', PBool True) \<in> set BarSeries_table"
          "(''group_padding'', ''groupPadding'', PFloat (2 / 10)) \<in> set BarSeries_table"
          "(''point_range'', ''pointRange'', PEnforcedNull) \<in> set BarSeries_table"
    by (simp_all add: BarSeries_table_def)
  have c: "map_of d' ''borderColor'' = None \<longrightarrow>
        map_of (BarSeries_get_kwargs_from_dict d') ''border_color'' = Some (PStr ''#ffffff'')"
    using BarSeries_kwargs_lookup[OF m(1), of d'] by (simp add: dict_get_def)
  have c2: "map_of d' ''borderRadius'' = None \<longrightarrow>
        map_of (BarSeries_get_kwargs_from_dict d') ''border_radius'' = Some (PInt 0)"
    using BarSeries_kwargs_lookup[OF m(2), of d'] by (simp add: dict_get_def)
  have c3: "map_of d' ''grouping'' = None \<longrightarrow>
        map_of (BarSeries_get_kwargs_from_dict d') ''grouping'' = Some (PBool True)"
    using BarSeries_kwargs_lookup[OF m(3), of d'] by (simp add: dict_get_def)
  have c4: "map_of d' ''groupPadding'' = None \<longrightarrow>
        map_of (BarSeries_get_kwargs_from_dict d') ''group_padding'' = Some (PFloat (2 / 10))"
    using BarSeries_kwargs_lookup[OF m(4), of d'] by (simp add: dict_get_def)
  have c5: "map_of d' ''pointRange'' = None \<longrightarrow>
        map_of (BarSeries_get_kwargs_from_dict d') ''point_range'' = Some PEnforcedNull"
    using BarSeries_kwargs_lookup[OF m(5), of d'] by (simp add: dict_get_def)
  from a b c c2 c3 c4 c5 ScreenReaderSection_default_after_chart_format[of d E s]
  show ?thesis by blast
qed

theorem C8_from_dict_renames_and_defaults_witness:
  "map_of [(''name'', PStr ''Sales'')] ''borderColor'' = None
   \<and> (''name'', ''name'', PNone) \<in> set BarSeries_table
   \<and> map_of (BarSeries_get_kwargs_from_dict [(''name'', PStr ''Sales'')]) ''name''
       = Some (PStr ''Sales'')
   \<and> map_of (BarSeries_get_kwargs_from_dict [(''name'', PStr ''Sales'')]) ''border_color''
       = Some (PStr ''#ffffff'')
   \<and> map_of [] ''afterChartFormat'' = (None :: pyval option)
   \<and> ScreenReaderSection_from_dict sample_env []
       = Inr (section_without_after_format
                \<lparr> after_chart_format := PStr ''{endOfChartMarker}'' \<rparr>)
   \<and> after_chart_format
        (section_without_after_format \<lparr> after_chart_format := PStr ''{endOfChartMarker}'' \<rparr>)
       = PStr (DEFAULT_AFTER_CHART_FORMAT sample_env)"
proof -
  let ?d = "[(''name'', PStr ''Sales'')]"
  let ?s = "section_without_after_format \<lparr> after_chart_format := PStr ''{endOfChartMarker}'' \<rparr>"
  note t = C8_from_dict_renames_and_defaults[of sample_env "[]" ?s ?d]
  have m: "(''name'', ''name'', PNone) \<in> set BarSeries_table"
    by (simp add: BarSeries_table_def)
  from t have "\<forall>(i, e, dflt) \<in> set BarSeries_table.
       map_of (BarSeries_get_kwargs_from_dict ?d) i = Some (dict_get ?d e dflt)" by blast
  from bspec[OF this m] have n: "map_of (BarSeries_get_kwargs_from_dict ?d) ''name''
       = Some (PStr ''Sales'')" by (simp add: dict_get_def)
  from t have c: "map_of (BarSeries_get_kwargs_from_dict ?d) ''border_color''
       = Some (PStr ''#ffffff'')" by simp
  have f: "ScreenReaderSection_from_dict sample_env [] = Inr ?s"
    by (simp add: ScreenReaderSection_from_dict_unfold dict_get_def
          validators_string_def after_chart_format_setter_def before_chart_format_setter_def
          sample_env_def section_without_after_format_def)
  from t f have "after_chart_format ?s = PStr (DEFAULT_AFTER_CHART_FORMAT sample_env)"
    by simp
  with m n c f show ?thesis by simp
qed

end
